theory Spec2Isabelle
  imports Complex_Main
begin

section \<open>The spaced-repetition scheduler of src/lib/spacedRepetition.ts\<close>

text \<open>
  The module keeps one record per question in the browser's \<open>localStorage\<close>, under the
  single key \<open>spaced-repetition-data\<close>, and computes the SM-2 style transition, the
  priority score, the due filter and the statistics from it.

  Conventions of the embedding.
  \<^item> A TypeScript \<open>number\<close> is a \<open>real\<close>: arithmetic is exact, and the values
    \<open>NaN\<close> and \<open>Infinity\<close> do not exist. \<open>Math.round\<close> rounds a tie towards
    plus infinity, which is \<open>floor (x + 1/2)\<close>. The source computes in IEEE doubles: every
    sum and product is rounded to the nearest double, a result beyond the largest double is
    \<open>Infinity\<close>, and \<open>JSON.stringify\<close> writes \<open>Infinity\<close> as \<open>null\<close>. So the
    value of a rounded product (the interval of the third tier, for one) can differ from
    the exact one by a unit, and no theorem of a claim below states such a value. They state
    what rounding to the nearest double leaves as it is: values that are computed exactly,
    and comparisons with a constant that hold with a margin, on numbers bounded so that no
    result leaves the range of the doubles.
  \<^item> Every call of \<open>Date.now()\<close> is an argument of the function that makes it. A function
    that reads the clock inside \<open>getQuestionData\<close> and once more itself takes the two
    readings \<open>t0\<close> and \<open>now\<close>.
  \<^item> A function that can throw returns \<open>error + 'a\<close>; \<open>Inl\<close> is the exception.
  \<^item> A function that writes \<open>localStorage\<close> returns the storage it leaves.
  \<^item> The object \<open>Record<string, RepetitionData>\<close> is a map from identifiers to records,
    looked up by its own keys: question identifiers are database keys, never the name of a
    property that every JavaScript object inherits.
\<close>

subsection \<open>Records\<close>

datatype result = Correct | Incorrect

text \<open>\<open>lastResult: 'correct' | 'incorrect' | null\<close> is a \<open>result option\<close>; \<open>None\<close> is \<open>null\<close>.\<close>

record RepetitionData =
  questionId :: string
  easeFactor :: real
  interval :: real
  repetitions :: real
  nextReview :: real
  lastResult :: "result option"

type_synonym store = "string \<rightharpoonup> RepetitionData"

subsection \<open>The browser's storage and JSON\<close>

text \<open>
  The text kept under the key is seen by the code only through its truthiness and through
  \<open>JSON.parse\<close>. It is the empty string, a text that \<open>JSON.parse\<close> rejects, or the text
  that \<open>JSON.stringify\<close> writes for a mapping of records (which parses back to that
  mapping: every number of the model is finite, and a finite number is written and read
  back as it is). A text that parses to something that is not a mapping of records is
  outside the return type the source declares, and outside this model.
\<close>

datatype item = EmptyString | Unparseable | Stringified store

datatype error = SecurityError | SyntaxError

text \<open>
  The storage is unreadable (\<open>getItem\<close> throws), or holds no item under the key
  (\<open>getItem\<close> returns \<open>null\<close>), or holds a text.
\<close>

datatype localStorage = Unreadable | Item "item option"

definition getItem :: "localStorage \<Rightarrow> error + item option" where
  "getItem ls = (case ls of Unreadable \<Rightarrow> Inl SecurityError | Item v \<Rightarrow> Inr v)"

text \<open>
  A write is modelled as succeeding and as leaving the text readable: the source does not
  catch a failing write, and a failing write (quota, disabled storage) is outside the model.
\<close>

definition setItem :: "item \<Rightarrow> localStorage \<Rightarrow> localStorage" where
  "setItem v ls = Item (Some v)"

definition truthy :: "item \<Rightarrow> bool" where
  "truthy s = (case s of EmptyString \<Rightarrow> False | _ \<Rightarrow> True)"

definition JSON_parse :: "item \<Rightarrow> error + store" where
  "JSON_parse s = (case s of Stringified m \<Rightarrow> Inr m | _ \<Rightarrow> Inl SyntaxError)"

definition JSON_stringify :: "store \<Rightarrow> item" where
  "JSON_stringify m = Stringified m"

definition Math_round :: "real \<Rightarrow> real" where
  "Math_round x = of_int \<lfloor>x + 1 / 2\<rfloor>"

subsection \<open>The store\<close>

text \<open>The body of the \<open>try\<close> block of \<open>getRepetitionData\<close>.\<close>

definition getRepetitionData_try :: "localStorage \<Rightarrow> error + store" where
  "getRepetitionData_try ls =
     (case getItem ls of
        Inl e \<Rightarrow> Inl e
      | Inr stored \<Rightarrow>
          (case stored of
             None \<Rightarrow> Inr Map.empty
           | Some s \<Rightarrow> if truthy s then JSON_parse s else Inr Map.empty))"

text \<open>\<open>try { ... } catch { return {}; }\<close>\<close>

definition getRepetitionData :: "localStorage \<Rightarrow> error + store" where
  "getRepetitionData ls =
     (case getRepetitionData_try ls of Inl e \<Rightarrow> Inr Map.empty | Inr m \<Rightarrow> Inr m)"

definition saveRepetitionData :: "store \<Rightarrow> localStorage \<Rightarrow> localStorage" where
  "saveRepetitionData data ls = setItem (JSON_stringify data) ls"

text \<open>\<open>questionIds.forEach(id => { delete data[id]; })\<close>\<close>

fun delete_each :: "string list \<Rightarrow> store \<Rightarrow> store" where
  "delete_each [] data = data"
| "delete_each (i # ids) data = delete_each ids (data(i := None))"

definition clearRepetitionForChapter :: "string list \<Rightarrow> localStorage \<Rightarrow> error + localStorage" where
  "clearRepetitionForChapter questionIds ls =
     (case getRepetitionData ls of
        Inl e \<Rightarrow> Inl e
      | Inr data \<Rightarrow> Inr (saveRepetitionData (delete_each questionIds data) ls))"

text \<open>
  \<open>getQuestionData\<close> reads the storage and the clock (\<open>now\<close>, for the default record) and
  writes nothing; the storage it leaves is returned beside the record.
\<close>

definition getQuestionData ::
  "real \<Rightarrow> string \<Rightarrow> localStorage \<Rightarrow> error + (RepetitionData \<times> localStorage)" where
  "getQuestionData now qid ls =
     (case getRepetitionData ls of
        Inl e \<Rightarrow> Inl e
      | Inr allData \<Rightarrow>
          (case allData qid of
             Some d \<Rightarrow> Inr (d, ls)
           | None \<Rightarrow>
               Inr (\<lparr>questionId = qid, easeFactor = 2.5, interval = 1, repetitions = 0,
                      nextReview = now, lastResult = None\<rparr>, ls)))"

subsection \<open>The transition\<close>

definition updateRepetition ::
  "real \<Rightarrow> real \<Rightarrow> string \<Rightarrow> bool \<Rightarrow> localStorage \<Rightarrow> error + (RepetitionData \<times> localStorage)" where
  "updateRepetition t0 now qid isCorrect ls =
     (case getRepetitionData ls of
        Inl e \<Rightarrow> Inl e
      | Inr allData \<Rightarrow>
          (case getQuestionData t0 qid ls of
             Inl e \<Rightarrow> Inl e
           | Inr (data, ls1) \<Rightarrow>
               (let d1 =
                      (if isCorrect then
                         (let a = (if repetitions data = 0 then data\<lparr>interval := 1\<rparr>
                                   else if repetitions data = 1 then data\<lparr>interval := 6\<rparr>
                                   else data\<lparr>interval := Math_round (interval data * easeFactor data)\<rparr>);
                              b = a\<lparr>repetitions := repetitions a + 1\<rparr>;
                              c = b\<lparr>easeFactor := max 1.3 (easeFactor b + 0.1)\<rparr>
                          in c\<lparr>lastResult := Some Correct\<rparr>)
                       else
                         (let a = data\<lparr>repetitions := 0\<rparr>;
                              b = a\<lparr>interval := 1\<rparr>;
                              c = b\<lparr>easeFactor := max 1.3 (easeFactor b - 0.3)\<rparr>
                          in c\<lparr>lastResult := Some Incorrect\<rparr>));
                    d2 = d1\<lparr>nextReview := now + interval d1 * 24 * 60 * 60 * 1000\<rparr>
                in Inr (d2, saveRepetitionData (allData(qid \<mapsto> d2)) ls1))))"

subsection \<open>The priority score\<close>

definition getPriorityScore :: "real \<Rightarrow> real \<Rightarrow> string \<Rightarrow> localStorage \<Rightarrow> error + real" where
  "getPriorityScore t0 now qid ls =
     (case getQuestionData t0 qid ls of
        Inl e \<Rightarrow> Inl e
      | Inr (data, ls1) \<Rightarrow>
          if lastResult data = None then Inr 50
          else if lastResult data = Some Incorrect then Inr (100 - easeFactor data * 10)
          else
            (let daysOverdue = (now - nextReview data) / (24 * 60 * 60 * 1000)
             in if daysOverdue > 0 then Inr (30 + min (daysOverdue * 5) 50)
                else Inr (easeFactor data * 5)))"

subsection \<open>The queries\<close>

text \<open>
  \<open>Array.prototype.filter\<close> with a callback that can throw: the first exception ends the
  call. The callbacks below read the clock through \<open>getQuestionData\<close>; those readings
  are the one argument \<open>t0\<close>.
\<close>

fun filter_js :: "('a \<Rightarrow> error + bool) \<Rightarrow> 'a list \<Rightarrow> error + 'a list" where
  "filter_js p [] = Inr []"
| "filter_js p (x # xs) =
     (case p x of
        Inl e \<Rightarrow> Inl e
      | Inr b \<Rightarrow>
          (case filter_js p xs of
             Inl e \<Rightarrow> Inl e
           | Inr ys \<Rightarrow> Inr (if b then x # ys else ys)))"

text \<open>
  The callback of \<open>getQuestionsForReview\<close> and of \<open>getReviewCount\<close>: the source writes
  the same three tests in both.
\<close>

definition needs_review :: "real \<Rightarrow> real \<Rightarrow> localStorage \<Rightarrow> string \<Rightarrow> error + bool" where
  "needs_review t0 now ls qid =
     (case getQuestionData t0 qid ls of
        Inl e \<Rightarrow> Inl e
      | Inr (data, ls1) \<Rightarrow>
          if lastResult data = None then Inr True
          else if lastResult data = Some Incorrect then Inr True
          else Inr (nextReview data \<le> now))"

text \<open>An item of type \<open>T extends { id: string }\<close> is any value with its \<open>id\<close> projection.\<close>

definition getQuestionsForReview ::
  "('a \<Rightarrow> string) \<Rightarrow> real \<Rightarrow> real \<Rightarrow> 'a list \<Rightarrow> localStorage \<Rightarrow> error + 'a list" where
  "getQuestionsForReview ident t0 now questions ls =
     filter_js (\<lambda>q. needs_review t0 now ls (ident q)) questions"

definition getReviewCount :: "real \<Rightarrow> real \<Rightarrow> string list \<Rightarrow> localStorage \<Rightarrow> error + nat" where
  "getReviewCount t0 now questionIds ls =
     (case filter_js (needs_review t0 now ls) questionIds of
        Inl e \<Rightarrow> Inl e
      | Inr ys \<Rightarrow> Inr (length ys))"

record stats =
  mastered :: nat
  learning :: nat
  needsReview :: nat
  notStarted :: nat

text \<open>The callback of the \<open>forEach\<close> in \<open>getRepetitionStats\<close>, on the four counters.\<close>

definition stats_step :: "store \<Rightarrow> real \<Rightarrow> stats \<Rightarrow> string \<Rightarrow> stats" where
  "stats_step allData now s qid =
     (case allData qid of
        None \<Rightarrow> s\<lparr>notStarted := notStarted s + 1\<rparr>
      | Some data \<Rightarrow>
          if lastResult data = None then s\<lparr>notStarted := notStarted s + 1\<rparr>
          else if lastResult data = Some Incorrect then s\<lparr>needsReview := needsReview s + 1\<rparr>
          else if interval data \<ge> 21 \<and> repetitions data \<ge> 3 then s\<lparr>mastered := mastered s + 1\<rparr>
          else if nextReview data \<le> now then s\<lparr>needsReview := needsReview s + 1\<rparr>
          else s\<lparr>learning := learning s + 1\<rparr>)"

definition getRepetitionStats :: "real \<Rightarrow> string list \<Rightarrow> localStorage \<Rightarrow> error + stats" where
  "getRepetitionStats now questionIds ls =
     (case getRepetitionData ls of
        Inl e \<Rightarrow> Inl e
      | Inr allData \<Rightarrow>
          Inr (foldl (stats_step allData now)
                 \<lparr>mastered = 0, learning = 0, needsReview = 0, notStarted = 0\<rparr> questionIds))"

subsection \<open>A run of answers\<close>

text \<open>
  The quiz pages call \<open>updateRepetition(currentQuestion.id, isCorrect)\<close> once per answer.
  A run of answers to one question is the list of its events, each with the two clock
  readings of the call and the outcome.
\<close>

fun answer_all :: "string \<Rightarrow> (real \<times> real \<times> bool) list \<Rightarrow> localStorage \<Rightarrow> error + localStorage" where
  "answer_all qid [] ls = Inr ls"
| "answer_all qid ((t0, now, isCorrect) # evs) ls =
     (case updateRepetition t0 now qid isCorrect ls of
        Inl e \<Rightarrow> Inl e
      | Inr (d, ls') \<Rightarrow> answer_all qid evs ls')"

subsection \<open>The rules as the specification words them\<close>

text \<open>The priority of a record at time \<open>now\<close>, rule by rule in the order of section 4.3.\<close>

definition spec_priority :: "RepetitionData \<Rightarrow> real \<Rightarrow> real" where
  "spec_priority r now =
     (case lastResult r of
        None \<Rightarrow> 50
      | Some Incorrect \<Rightarrow> 100 - easeFactor r * 10
      | Some Correct \<Rightarrow>
          (let daysOverdue = (now - nextReview r) / 86400000
           in if daysOverdue > 0 then 30 + min (daysOverdue * 5) 50 else easeFactor r * 5))"

datatype bucket = Mastered | Learning | NeedsReview | NotStarted

text \<open>The bucket of an identifier, by the precedence rules of section 4.4.\<close>

definition spec_bucket :: "store \<Rightarrow> real \<Rightarrow> string \<Rightarrow> bucket" where
  "spec_bucket m now qid =
     (case m qid of
        None \<Rightarrow> NotStarted
      | Some r \<Rightarrow>
          if lastResult r = None then NotStarted
          else if lastResult r = Some Incorrect then NeedsReview
          else if lastResult r = Some Correct \<and> interval r \<ge> 21 \<and> repetitions r \<ge> 3 then Mastered
          else if lastResult r = Some Correct \<and> nextReview r \<le> now then NeedsReview
          else Learning)"

definition count_bucket :: "store \<Rightarrow> real \<Rightarrow> bucket \<Rightarrow> string list \<Rightarrow> nat" where
  "count_bucket m now b ids = length (filter (\<lambda>qid. spec_bucket m now qid = b) ids)"

section \<open>Properties\<close>

subsection \<open>What the store functions return\<close>

lemma getRepetitionData_eq:
  "getRepetitionData ls =
     Inr (case ls of Item (Some (Stringified m)) \<Rightarrow> m | _ \<Rightarrow> Map.empty)"
  by (simp add: getRepetitionData_def getRepetitionData_try_def getItem_def truthy_def
      JSON_parse_def split: localStorage.splits option.splits item.splits)

lemma getRepetitionData_total: "\<exists>m. getRepetitionData ls = Inr m"
  by (simp add: getRepetitionData_eq)

lemma getQuestionData_Inr:
  "getRepetitionData ls = Inr m \<Longrightarrow>
   getQuestionData t qid ls =
     Inr (case m qid of
            Some d \<Rightarrow> d
          | None \<Rightarrow> \<lparr>questionId = qid, easeFactor = 2.5, interval = 1, repetitions = 0,
                      nextReview = t, lastResult = None\<rparr>, ls)"
  by (simp add: getQuestionData_def split: option.splits)

text \<open>Every record is the one read for a question on some storage.\<close>

lemma getQuestionData_stored:
  "getQuestionData t qid (saveRepetitionData (m(qid \<mapsto> r)) ls) =
     Inr (r, saveRepetitionData (m(qid \<mapsto> r)) ls)"
  by (simp add: getQuestionData_def getRepetitionData_eq saveRepetitionData_def setItem_def
      JSON_stringify_def)

lemma getQuestionData_frame:
  "getQuestionData t qid ls = Inr (r, ls0) \<Longrightarrow> ls0 = ls"
  by (auto simp: getQuestionData_def split: sum.splits option.splits)

lemma getRepetitionData_saved:
  "getRepetitionData (saveRepetitionData m ls) = Inr m"
  by (simp add: getRepetitionData_eq saveRepetitionData_def setItem_def JSON_stringify_def)

text \<open>The fields of the record returned, in the exact arithmetic of the model.\<close>

lemma updateRepetition_fields:
  assumes "getQuestionData t0 qid ls = Inr (r, ls0)"
  shows "\<exists>r' ls'. updateRepetition t0 now qid isCorrect ls = Inr (r', ls')
     \<and> getQuestionData t qid ls' = Inr (r', ls')
     \<and> questionId r' = questionId r
     \<and> interval r' =
         (if isCorrect then
            (if repetitions r = 0 then 1 else if repetitions r = 1 then 6
             else Math_round (interval r * easeFactor r))
          else 1)
     \<and> repetitions r' = (if isCorrect then repetitions r + 1 else 0)
     \<and> easeFactor r' = (if isCorrect then max 1.3 (easeFactor r + 0.1) else max 1.3 (easeFactor r - 0.3))
     \<and> lastResult r' = Some (if isCorrect then Correct else Incorrect)
     \<and> nextReview r' = now + interval r' * 86400000"
proof -
  obtain m where m: "getRepetitionData ls = Inr m"
    using getRepetitionData_total by blast
  show ?thesis
    using assms m
    by (simp add: updateRepetition_def getQuestionData_Inr getRepetitionData_saved Let_def)
qed

lemma updateRepetition_ease_floor:
  "\<exists>r' ls'. updateRepetition t0 now qid isCorrect ls = Inr (r', ls')
     \<and> getQuestionData t qid ls' = Inr (r', ls') \<and> 1.3 \<le> easeFactor r'"
proof -
  obtain m where m: "getRepetitionData ls = Inr m"
    using getRepetitionData_total by blast
  obtain r where r: "getQuestionData t0 qid ls = Inr (r, ls)"
    using getQuestionData_Inr [OF m] by blast
  from updateRepetition_fields [OF r, of now isCorrect t]
  obtain r' ls' where u: "updateRepetition t0 now qid isCorrect ls = Inr (r', ls')"
    and g: "getQuestionData t qid ls' = Inr (r', ls')"
    and e: "easeFactor r' =
      (if isCorrect then max 1.3 (easeFactor r + 0.1) else max 1.3 (easeFactor r - 0.3))"
    by blast
  have "1.3 \<le> easeFactor r'"
    unfolding e by (simp only: max.cobounded1 if_split simp_thms)
  with u g show ?thesis
    by blast
qed

lemma answer_all_ease_floor:
  assumes "getQuestionData t qid ls = Inr (r, ls)" and "1.3 \<le> easeFactor r"
  shows "\<exists>r' ls'. answer_all qid evs ls = Inr ls'
     \<and> getQuestionData t qid ls' = Inr (r', ls') \<and> 1.3 \<le> easeFactor r'"
  using assms
proof (induction evs arbitrary: ls r)
  case Nil
  then show ?case by simp
next
  case (Cons ev evs)
  obtain t0 now ok where ev: "ev = (t0, now, ok)"
    by (cases ev)
  from updateRepetition_ease_floor [of t0 now qid ok ls t]
  obtain r1 ls1 where u: "updateRepetition t0 now qid ok ls = Inr (r1, ls1)"
    and g: "getQuestionData t qid ls1 = Inr (r1, ls1)" and e: "1.3 \<le> easeFactor r1"
    by blast
  from Cons.IH [OF g e] show ?case
    by (simp add: ev u)
qed

subsection \<open>The transition\<close>

text \<open>
  Claim C2, as the specification states it: a record with 1 repetition, interval 6 and ease
  factor 2.5, answered correctly, comes back with interval \<open>round (6 * 2.5) = 15\<close>. The code
  takes the branch \<open>repetitions === 1\<close> and sets the interval to 6.
\<close>

theorem updateRepetition_second_success_counterexample:
  "updateRepetition 0 0 ''q'' True
     (Item (Some (Stringified [''q'' \<mapsto>
        \<lparr>questionId = ''q'', easeFactor = 2.5, interval = 6, repetitions = 1,
         nextReview = 0, lastResult = Some Correct\<rparr>]))) =
   Inr (\<lparr>questionId = ''q'', easeFactor = 2.6, interval = 6, repetitions = 2,
          nextReview = 518400000, lastResult = Some Correct\<rparr>,
        Item (Some (Stringified [''q'' \<mapsto>
          \<lparr>questionId = ''q'', easeFactor = 2.6, interval = 6, repetitions = 2,
           nextReview = 518400000, lastResult = Some Correct\<rparr>])))
   \<and> (6::real) \<noteq> 15 \<and> Math_round (6 * 2.5) = 15"
  by (simp add: updateRepetition_def getQuestionData_def getRepetitionData_eq
      saveRepetitionData_def setItem_def JSON_stringify_def Math_round_def Let_def)

text \<open>
  Claim C2, amended: a record with 1 repetition, interval 6 and ease factor 2.5, answered
  correctly, comes back with 2 repetitions, interval 6, ease factor 2.6 and last result
  correct.
\<close>

theorem updateRepetition_second_success:
  assumes "getQuestionData t0 qid ls = Inr (r, ls0)"
    and "repetitions r = 1" and "interval r = 6" and "easeFactor r = 2.5"
  shows "\<exists>r' ls'. updateRepetition t0 now qid True ls = Inr (r', ls')
     \<and> repetitions r' = 2 \<and> interval r' = 6
     \<and> easeFactor r' = 2.6 \<and> lastResult r' = Some Correct"
  using updateRepetition_fields [OF assms(1), of now True 0] assms(2-4)
  by auto

theorem updateRepetition_second_success_witness:
  "getQuestionData 3 ''q''
     (Item (Some (Stringified [''q'' \<mapsto>
        \<lparr>questionId = ''q'', easeFactor = 2.5, interval = 6, repetitions = 1,
         nextReview = 0, lastResult = Some Correct\<rparr>]))) =
   Inr (\<lparr>questionId = ''q'', easeFactor = 2.5, interval = 6, repetitions = 1,
          nextReview = 0, lastResult = Some Correct\<rparr>,
        Item (Some (Stringified [''q'' \<mapsto>
        \<lparr>questionId = ''q'', easeFactor = 2.5, interval = 6, repetitions = 1,
         nextReview = 0, lastResult = Some Correct\<rparr>])))
   \<and> (\<exists>r' ls'. updateRepetition 3 4 ''q'' True
         (Item (Some (Stringified [''q'' \<mapsto>
            \<lparr>questionId = ''q'', easeFactor = 2.5, interval = 6, repetitions = 1,
             nextReview = 0, lastResult = Some Correct\<rparr>]))) = Inr (r', ls')
       \<and> repetitions r' = 2 \<and> interval r' = 6
       \<and> easeFactor r' = 2.6 \<and> lastResult r' = Some Correct)"
proof -
  let ?a = "\<lparr>questionId = ''q'', easeFactor = 2.5, interval = 6, repetitions = 1,
         nextReview = 0, lastResult = Some Correct\<rparr>"
  have h: "getQuestionData 3 ''q'' (Item (Some (Stringified [''q'' \<mapsto> ?a]))) =
      Inr (?a, Item (Some (Stringified [''q'' \<mapsto> ?a])))"
    by (simp add: getQuestionData_def getRepetitionData_eq)
  show ?thesis
    using h updateRepetition_second_success [OF h, of 4] by simp
qed

text \<open>
  Claim C3. If the record read for the question has an ease factor of at least 1.3, so has
  the record \<open>updateRepetition\<close> returns, whatever the answer. And after any run of
  incorrect answers to a question that had no record, the record of the question has an
  ease factor of at least 1.3.
\<close>

theorem easeFactor_floor:
  "(\<forall>r ls0. getQuestionData t0 qid ls = Inr (r, ls0) \<longrightarrow> 1.3 \<le> easeFactor r \<longrightarrow>
      (\<exists>r' ls'. updateRepetition t0 now qid isCorrect ls = Inr (r', ls') \<and> 1.3 \<le> easeFactor r'))
   \<and> (getRepetitionData ls = Inr m \<and> m qid = None \<longrightarrow>
      (\<exists>r' ls'. answer_all qid (map (\<lambda>(a, b). (a, b, False)) ts) ls = Inr ls'
         \<and> getQuestionData t qid ls' = Inr (r', ls') \<and> 1.3 \<le> easeFactor r'))"
proof (intro conjI allI impI)
  fix r ls0
  show "\<exists>r' ls'. updateRepetition t0 now qid isCorrect ls = Inr (r', ls') \<and> 1.3 \<le> easeFactor r'"
    using updateRepetition_ease_floor [of t0 now qid isCorrect ls 0] by blast
next
  assume a: "getRepetitionData ls = Inr m \<and> m qid = None"
  then have g: "getQuestionData t qid ls =
      Inr (\<lparr>questionId = qid, easeFactor = 2.5, interval = 1, repetitions = 0,
             nextReview = t, lastResult = None\<rparr>, ls)"
    by (simp add: getQuestionData_Inr)
  show "\<exists>r' ls'. answer_all qid (map (\<lambda>(a, b). (a, b, False)) ts) ls = Inr ls'
         \<and> getQuestionData t qid ls' = Inr (r', ls') \<and> 1.3 \<le> easeFactor r'"
    by (rule answer_all_ease_floor [OF g]) simp
qed

text \<open>Five misses in a row from a fresh question reach the floor, and stay on it.\<close>

lemma answer_all_five_misses:
  "\<exists>ls'. answer_all ''q'' (map (\<lambda>(a, b). (a, b, False)) [(0, 1), (2, 3), (4, 5), (6, 7), (8, 9)])
      (Item None) = Inr ls'
    \<and> getQuestionData 10 ''q'' ls' =
        Inr (\<lparr>questionId = ''q'', easeFactor = 1.3, interval = 1, repetitions = 0,
               nextReview = 86400009, lastResult = Some Incorrect\<rparr>, ls')"
  by (simp add: updateRepetition_def getQuestionData_def getRepetitionData_eq
      saveRepetitionData_def setItem_def JSON_stringify_def Let_def)

theorem easeFactor_floor_witness:
  "getQuestionData 0 ''q'' (Item None) =
     Inr (\<lparr>questionId = ''q'', easeFactor = 2.5, interval = 1, repetitions = 0,
            nextReview = 0, lastResult = None\<rparr>, Item None)
   \<and> (1.3::real) \<le> 2.5
   \<and> (\<exists>r' ls'. updateRepetition 0 1 ''q'' False (Item None) = Inr (r', ls')
         \<and> 1.3 \<le> easeFactor r')
   \<and> getRepetitionData (Item None) = Inr Map.empty
   \<and> (\<exists>r' ls'. answer_all ''q''
           (map (\<lambda>(a, b). (a, b, False)) [(0, 1), (2, 3), (4, 5), (6, 7), (8, 9)])
           (Item None) = Inr ls'
         \<and> getQuestionData 10 ''q'' ls' = Inr (r', ls') \<and> 1.3 \<le> easeFactor r')"
proof -
  let ?d = "\<lparr>questionId = ''q'', easeFactor = 2.5, interval = 1, repetitions = 0,
            nextReview = 0, lastResult = None\<rparr>"
  have h: "getQuestionData 0 ''q'' (Item None) = Inr (?d, Item None)"
    by (simp add: getQuestionData_def getRepetitionData_eq)
  have e: "getRepetitionData (Item None) = Inr Map.empty"
    by (simp add: getRepetitionData_eq)
  have a: "\<exists>r' ls'. updateRepetition 0 1 ''q'' False (Item None) = Inr (r', ls')
         \<and> 1.3 \<le> easeFactor r'"
    using easeFactor_floor [of 0 "''q''" "Item None" 1 False Map.empty "[]" 0] h by simp
  have b: "\<exists>r' ls'. answer_all ''q''
           (map (\<lambda>(a, b). (a, b, False)) [(0, 1), (2, 3), (4, 5), (6, 7), (8, 9)])
           (Item None) = Inr ls'
         \<and> getQuestionData 10 ''q'' ls' = Inr (r', ls') \<and> 1.3 \<le> easeFactor r'"
    using easeFactor_floor [of 0 "''q''" "Item None" 1 False Map.empty 
        "[(0, 1), (2, 3), (4, 5), (6, 7), (8, 9)]" 10] e
    by simp
  show ?thesis
    using h e a b by simp
qed

subsection \<open>The priority score\<close>

text \<open>
  Claim C4. For the record \<open>r\<close> read for the question, \<open>getPriorityScore\<close> returns the
  score of the specification's rules: 50 when the last result is unset,
  \<open>100 - easeFactor * 10\<close> when it is incorrect, and otherwise, with
  \<open>daysOverdue = (now - nextReview) / 86400000\<close>, \<open>30 + min (daysOverdue * 5) 50\<close> when
  \<open>daysOverdue > 0\<close> and \<open>easeFactor * 5\<close> when not. The score of an overdue correct
  record is greater than 30 and at most 80.
\<close>

theorem getPriorityScore_spec:
  assumes "getQuestionData t0 qid ls = Inr (r, ls0)"
  shows "getPriorityScore t0 now qid ls = Inr (spec_priority r now)
     \<and> (lastResult r = Some Correct \<and> 0 < (now - nextReview r) / 86400000 \<longrightarrow>
          30 < spec_priority r now \<and> spec_priority r now \<le> 80)"
proof -
  have "getPriorityScore t0 now qid ls = Inr (spec_priority r now)"
    using assms
    by (cases "lastResult r")
      (auto simp: getPriorityScore_def spec_priority_def Let_def split: result.splits)
  moreover have "lastResult r = Some Correct \<and> 0 < (now - nextReview r) / 86400000 \<longrightarrow>
          30 < spec_priority r now \<and> spec_priority r now \<le> 80"
    by (auto simp: spec_priority_def Let_def min_def)
  ultimately show ?thesis
    by blast
qed

theorem getPriorityScore_spec_witness:
  "getQuestionData 0 ''q''
     (Item (Some (Stringified [''q'' \<mapsto>
        \<lparr>questionId = ''q'', easeFactor = 2.6, interval = 1, repetitions = 1,
         nextReview = 86400000, lastResult = Some Correct\<rparr>]))) =
   Inr (\<lparr>questionId = ''q'', easeFactor = 2.6, interval = 1, repetitions = 1,
          nextReview = 86400000, lastResult = Some Correct\<rparr>,
        Item (Some (Stringified [''q'' \<mapsto>
        \<lparr>questionId = ''q'', easeFactor = 2.6, interval = 1, repetitions = 1,
         nextReview = 86400000, lastResult = Some Correct\<rparr>])))
   \<and> (0::real) < (259200000 - 86400000) / 86400000
   \<and> getPriorityScore 0 259200000 ''q''
       (Item (Some (Stringified [''q'' \<mapsto>
        \<lparr>questionId = ''q'', easeFactor = 2.6, interval = 1, repetitions = 1,
         nextReview = 86400000, lastResult = Some Correct\<rparr>]))) = Inr 40
   \<and> (30::real) < 40 \<and> (40::real) \<le> 80"
proof -
  let ?a = "\<lparr>questionId = ''q'', easeFactor = 2.6, interval = 1, repetitions = 1,
         nextReview = 86400000, lastResult = Some Correct\<rparr>"
  have h: "getQuestionData 0 ''q'' (Item (Some (Stringified [''q'' \<mapsto> ?a]))) =
      Inr (?a, Item (Some (Stringified [''q'' \<mapsto> ?a])))"
    by (simp add: getQuestionData_def getRepetitionData_eq)
  have v: "spec_priority ?a 259200000 = 40"
    by (simp add: spec_priority_def)
  have p: "getPriorityScore 0 259200000 ''q'' (Item (Some (Stringified [''q'' \<mapsto> ?a]))) = Inr 40"
    using getPriorityScore_spec [OF h, of 259200000] unfolding v by blast
  show ?thesis
    using h p by simp
qed






subsection \<open>The statistics\<close>

lemma stats_step_bucket:
  "stats_step m now s qid =
     (case spec_bucket m now qid of
        Mastered \<Rightarrow> s\<lparr>mastered := mastered s + 1\<rparr>
      | Learning \<Rightarrow> s\<lparr>learning := learning s + 1\<rparr>
      | NeedsReview \<Rightarrow> s\<lparr>needsReview := needsReview s + 1\<rparr>
      | NotStarted \<Rightarrow> s\<lparr>notStarted := notStarted s + 1\<rparr>)"
proof (cases "m qid")
  case None
  then show ?thesis
    by (simp add: stats_step_def spec_bucket_def)
next
  case (Some r)
  show ?thesis
  proof (cases "lastResult r")
    case None
    with Some show ?thesis
      by (simp add: stats_step_def spec_bucket_def)
  next
    case (Some res)
    with \<open>m qid = Some r\<close> show ?thesis
      by (cases res) (simp_all add: stats_step_def spec_bucket_def)
  qed
qed

lemma foldl_stats_step:
  "foldl (stats_step m now) s ids =
     \<lparr>mastered = mastered s + count_bucket m now Mastered ids,
      learning = learning s + count_bucket m now Learning ids,
      needsReview = needsReview s + count_bucket m now NeedsReview ids,
      notStarted = notStarted s + count_bucket m now NotStarted ids\<rparr>"
proof (induction ids arbitrary: s)
  case Nil
  show ?case by (simp add: count_bucket_def)
next
  case (Cons qid ids)
  have f: "foldl (stats_step m now) s (qid # ids) =
      foldl (stats_step m now) (stats_step m now s qid) ids"
    by simp
  show ?case
  proof (cases "spec_bucket m now qid")
    case Mastered
    then have "stats_step m now s qid = s\<lparr>mastered := mastered s + 1\<rparr>"
      by (simp add: stats_step_bucket)
    with Mastered show ?thesis
      unfolding f Cons.IH by (simp add: count_bucket_def)
  next
    case Learning
    then have "stats_step m now s qid = s\<lparr>learning := learning s + 1\<rparr>"
      by (simp add: stats_step_bucket)
    with Learning show ?thesis
      unfolding f Cons.IH by (simp add: count_bucket_def)
  next
    case NeedsReview
    then have "stats_step m now s qid = s\<lparr>needsReview := needsReview s + 1\<rparr>"
      by (simp add: stats_step_bucket)
    with NeedsReview show ?thesis
      unfolding f Cons.IH by (simp add: count_bucket_def)
  next
    case NotStarted
    then have "stats_step m now s qid = s\<lparr>notStarted := notStarted s + 1\<rparr>"
      by (simp add: stats_step_bucket)
    with NotStarted show ?thesis
      unfolding f Cons.IH by (simp add: count_bucket_def)
  qed
qed

lemma count_bucket_sum:
  "count_bucket m now Mastered ids + count_bucket m now Learning ids
     + count_bucket m now NeedsReview ids + count_bucket m now NotStarted ids = length ids"
proof (induction ids)
  case Nil
  show ?case by (simp add: count_bucket_def)
next
  case (Cons qid ids)
  then show ?case
    by (cases "spec_bucket m now qid") (simp_all add: count_bucket_def)
qed

text \<open>
  Claim C6. For every list of identifiers, storage and time, \<open>getRepetitionStats\<close> counts
  each identifier of the list in the one bucket that the precedence rules give it (no
  record or no last result: not started; incorrect: needs review; correct with interval at
  least 21 and at least 3 repetitions: mastered; correct and \<open>nextReview \<le> now\<close>: needs
  review; otherwise learning), and the four counts add up to the length of the list.
\<close>

theorem getRepetitionStats_buckets:
  "\<exists>m s. getRepetitionData ls = Inr m \<and> getRepetitionStats now ids ls = Inr s
     \<and> mastered s = count_bucket m now Mastered ids
     \<and> learning s = count_bucket m now Learning ids
     \<and> needsReview s = count_bucket m now NeedsReview ids
     \<and> notStarted s = count_bucket m now NotStarted ids
     \<and> mastered s + learning s + needsReview s + notStarted s = length ids"
proof -
  obtain m where m: "getRepetitionData ls = Inr m"
    using getRepetitionData_total by blast
  let ?s = "foldl (stats_step m now)
      \<lparr>mastered = 0, learning = 0, needsReview = 0, notStarted = 0\<rparr> ids"
  have s: "getRepetitionStats now ids ls = Inr ?s"
    by (simp add: getRepetitionStats_def m)
  have f: "mastered ?s = count_bucket m now Mastered ids"
    "learning ?s = count_bucket m now Learning ids"
    "needsReview ?s = count_bucket m now NeedsReview ids"
    "notStarted ?s = count_bucket m now NotStarted ids"
    by (simp_all add: foldl_stats_step)
  have "mastered ?s + learning ?s + needsReview ?s + notStarted ?s = length ids"
    unfolding f by (rule count_bucket_sum)
  with m s f show ?thesis
    by blast
qed

text \<open>One identifier in each branch, and one of them twice.\<close>

lemma getRepetitionStats_example:
  "getRepetitionStats 950400000 [''a'', ''b'', ''c'', ''d'', ''e'', ''a'']
     (Item (Some (Stringified
        [''a'' \<mapsto> \<lparr>questionId = ''a'', easeFactor = 2.2, interval = 1, repetitions = 0,
                  nextReview = 86400000, lastResult = Some Incorrect\<rparr>,
         ''b'' \<mapsto> \<lparr>questionId = ''b'', easeFactor = 2.6, interval = 1, repetitions = 1,
                  nextReview = 86400000, lastResult = Some Correct\<rparr>,
         ''c'' \<mapsto> \<lparr>questionId = ''c'', easeFactor = 2.8, interval = 42, repetitions = 3,
                  nextReview = 86400000, lastResult = Some Correct\<rparr>,
         ''d'' \<mapsto> \<lparr>questionId = ''d'', easeFactor = 2.7, interval = 6, repetitions = 2,
                  nextReview = 960000000, lastResult = Some Correct\<rparr>]))) =
   Inr \<lparr>mastered = 1, learning = 1, needsReview = 3, notStarted = 1\<rparr>"
  by (simp add: getRepetitionStats_def getRepetitionData_eq stats_step_def)

subsection \<open>Reading and deleting records\<close>

text \<open>
  Claim C7, as the specification states it: two calls of \<open>getQuestionData\<close> for the same
  identifier, with no write between them, return equal records. For an identifier without
  a record each call builds the default with \<open>nextReview: Date.now()\<close>, so two calls at
  different clock readings return different records.
\<close>

theorem getQuestionData_twice_counterexample:
  "getQuestionData 0 ''q'' (Item None) =
     Inr (\<lparr>questionId = ''q'', easeFactor = 2.5, interval = 1, repetitions = 0,
            nextReview = 0, lastResult = None\<rparr>, Item None)
   \<and> getQuestionData 1 ''q'' (Item None) =
     Inr (\<lparr>questionId = ''q'', easeFactor = 2.5, interval = 1, repetitions = 0,
            nextReview = 1, lastResult = None\<rparr>, Item None)
   \<and> getQuestionData 0 ''q'' (Item None) \<noteq> getQuestionData 1 ''q'' (Item None)"
  by (simp add: getQuestionData_def getRepetitionData_eq)

text \<open>
  Claim C7, amended. \<open>getQuestionData\<close> returns the stored record when there is one, and
  otherwise the default record (ease factor 2.5, interval 1, 0 repetitions, no last result)
  whose \<open>nextReview\<close> is the clock reading of the call; it leaves the storage as it was;
  and two calls for the same identifier on the same storage return equal records when a
  record is stored for the identifier or when the clock reads the same at both calls, and
  in every case records that differ at most in \<open>nextReview\<close>.
\<close>

theorem getQuestionData_read_only:
  assumes "getRepetitionData ls = Inr m"
  shows "(\<forall>d. m qid = Some d \<longrightarrow> getQuestionData t qid ls = Inr (d, ls))
     \<and> (m qid = None \<longrightarrow>
          getQuestionData t qid ls =
            Inr (\<lparr>questionId = qid, easeFactor = 2.5, interval = 1, repetitions = 0,
                   nextReview = t, lastResult = None\<rparr>, ls))
     \<and> (\<exists>r. getQuestionData t qid ls = Inr (r, ls))
     \<and> (m qid \<noteq> None \<or> t1 = t2 \<longrightarrow> getQuestionData t1 qid ls = getQuestionData t2 qid ls)
     \<and> (\<exists>r1 r2. getQuestionData t1 qid ls = Inr (r1, ls) \<and> getQuestionData t2 qid ls = Inr (r2, ls)
          \<and> r2 = r1\<lparr>nextReview := nextReview r2\<rparr>)"
  by (cases "m qid") (simp_all add: getQuestionData_Inr [OF assms])

theorem getQuestionData_read_only_witness:
  "getRepetitionData
     (Item (Some (Stringified [''q'' \<mapsto>
        \<lparr>questionId = ''q'', easeFactor = 2.6, interval = 1, repetitions = 1,
         nextReview = 86400000, lastResult = Some Correct\<rparr>]))) =
   Inr [''q'' \<mapsto>
        \<lparr>questionId = ''q'', easeFactor = 2.6, interval = 1, repetitions = 1,
         nextReview = 86400000, lastResult = Some Correct\<rparr>]
   \<and> getQuestionData 5 ''q''
     (Item (Some (Stringified [''q'' \<mapsto>
        \<lparr>questionId = ''q'', easeFactor = 2.6, interval = 1, repetitions = 1,
         nextReview = 86400000, lastResult = Some Correct\<rparr>]))) =
     Inr (\<lparr>questionId = ''q'', easeFactor = 2.6, interval = 1, repetitions = 1,
            nextReview = 86400000, lastResult = Some Correct\<rparr>,
          Item (Some (Stringified [''q'' \<mapsto>
        \<lparr>questionId = ''q'', easeFactor = 2.6, interval = 1, repetitions = 1,
         nextReview = 86400000, lastResult = Some Correct\<rparr>])))
   \<and> getQuestionData 5 ''q''
     (Item (Some (Stringified [''q'' \<mapsto>
        \<lparr>questionId = ''q'', easeFactor = 2.6, interval = 1, repetitions = 1,
         nextReview = 86400000, lastResult = Some Correct\<rparr>]))) =
     getQuestionData 6 ''q''
     (Item (Some (Stringified [''q'' \<mapsto>
        \<lparr>questionId = ''q'', easeFactor = 2.6, interval = 1, repetitions = 1,
         nextReview = 86400000, lastResult = Some Correct\<rparr>])))
   \<and> getQuestionData 5 ''p''
     (Item (Some (Stringified [''q'' \<mapsto>
        \<lparr>questionId = ''q'', easeFactor = 2.6, interval = 1, repetitions = 1,
         nextReview = 86400000, lastResult = Some Correct\<rparr>]))) =
     Inr (\<lparr>questionId = ''p'', easeFactor = 2.5, interval = 1, repetitions = 0,
            nextReview = 5, lastResult = None\<rparr>,
          Item (Some (Stringified [''q'' \<mapsto>
        \<lparr>questionId = ''q'', easeFactor = 2.6, interval = 1, repetitions = 1,
         nextReview = 86400000, lastResult = Some Correct\<rparr>])))"
proof -
  let ?a = "\<lparr>questionId = ''q'', easeFactor = 2.6, interval = 1, repetitions = 1,
         nextReview = 86400000, lastResult = Some Correct\<rparr>"
  let ?S = "Item (Some (Stringified [''q'' \<mapsto> ?a]))"
  have h: "getRepetitionData ?S = Inr [''q'' \<mapsto> ?a]"
    by (simp add: getRepetitionData_eq)
  have a: "getQuestionData 5 ''q'' ?S = Inr (?a, ?S)"
    using getQuestionData_read_only [OF h, of "''q''" 5 5 6] by simp
  have b: "getQuestionData 5 ''q'' ?S = getQuestionData 6 ''q'' ?S"
    using getQuestionData_read_only
      [OF h, of "''q''" 5 5 6, THEN conjunct2, THEN conjunct2, THEN conjunct2, THEN conjunct1]
    by simp
  have c: "getQuestionData 5 ''p'' ?S =
     Inr (\<lparr>questionId = ''p'', easeFactor = 2.5, interval = 1, repetitions = 0,
            nextReview = 5, lastResult = None\<rparr>, ?S)"
    using getQuestionData_read_only [OF h, of "''p''" 5 5 6] by simp
  show ?thesis
    using h a b c by simp
qed

lemma delete_each_eq: "delete_each ids m = (\<lambda>i. if i \<in> set ids then None else m i)"
  by (induction ids arbitrary: m) (auto simp: fun_eq_iff)

text \<open>
  Claim C8. On every storage and for every list of identifiers,
  \<open>clearRepetitionForChapter\<close> returns (it does not throw, whether or not a listed
  identifier has a record), the mapping loaded afterwards is the one loaded before without
  the listed identifiers and with every other record unchanged, and \<open>getQuestionData\<close> on
  a listed identifier then returns the default record without a last result.
\<close>

theorem clearRepetitionForChapter_removes:
  assumes "getRepetitionData ls = Inr m"
  shows "\<exists>ls'. clearRepetitionForChapter ids ls = Inr ls'
     \<and> getRepetitionData ls' = Inr (\<lambda>i. if i \<in> set ids then None else m i)
     \<and> (\<forall>i \<in> set ids.
          getQuestionData t i ls' =
            Inr (\<lparr>questionId = i, easeFactor = 2.5, interval = 1, repetitions = 0,
                   nextReview = t, lastResult = None\<rparr>, ls'))"
proof -
  let ?m' = "\<lambda>i. if i \<in> set ids then None else m i"
  let ?ls' = "saveRepetitionData (delete_each ids m) ls"
  have c: "clearRepetitionForChapter ids ls = Inr ?ls'"
    by (simp add: clearRepetitionForChapter_def assms)
  have g: "getRepetitionData ?ls' = Inr ?m'"
    by (simp add: getRepetitionData_saved delete_each_eq)
  have "\<forall>i \<in> set ids. getQuestionData t i ?ls' =
            Inr (\<lparr>questionId = i, easeFactor = 2.5, interval = 1, repetitions = 0,
                   nextReview = t, lastResult = None\<rparr>, ?ls')"
    by (simp add: getQuestionData_Inr [OF g])
  with c g show ?thesis
    by blast
qed

theorem clearRepetitionForChapter_removes_witness:
  "getRepetitionData
     (Item (Some (Stringified
        [''a'' \<mapsto> \<lparr>questionId = ''a'', easeFactor = 2.2, interval = 1, repetitions = 0,
                  nextReview = 86400000, lastResult = Some Incorrect\<rparr>,
         ''b'' \<mapsto> \<lparr>questionId = ''b'', easeFactor = 2.6, interval = 1, repetitions = 1,
                  nextReview = 86400000, lastResult = Some Correct\<rparr>]))) =
   Inr [''a'' \<mapsto> \<lparr>questionId = ''a'', easeFactor = 2.2, interval = 1, repetitions = 0,
                  nextReview = 86400000, lastResult = Some Incorrect\<rparr>,
         ''b'' \<mapsto> \<lparr>questionId = ''b'', easeFactor = 2.6, interval = 1, repetitions = 1,
                  nextReview = 86400000, lastResult = Some Correct\<rparr>]
   \<and> ''a'' \<in> set [''a'', ''x'']
   \<and> (\<exists>ls'. clearRepetitionForChapter [''a'', ''x'']
         (Item (Some (Stringified
        [''a'' \<mapsto> \<lparr>questionId = ''a'', easeFactor = 2.2, interval = 1, repetitions = 0,
                  nextReview = 86400000, lastResult = Some Incorrect\<rparr>,
         ''b'' \<mapsto> \<lparr>questionId = ''b'', easeFactor = 2.6, interval = 1, repetitions = 1,
                  nextReview = 86400000, lastResult = Some Correct\<rparr>]))) = Inr ls'
       \<and> getRepetitionData ls' =
           Inr (\<lambda>i. if i \<in> set [''a'', ''x''] then None
                    else [''a'' \<mapsto> \<lparr>questionId = ''a'', easeFactor = 2.2, interval = 1, repetitions = 0,
                  nextReview = 86400000, lastResult = Some Incorrect\<rparr>,
         ''b'' \<mapsto> \<lparr>questionId = ''b'', easeFactor = 2.6, interval = 1, repetitions = 1,
                  nextReview = 86400000, lastResult = Some Correct\<rparr>] i)
       \<and> getQuestionData 3 ''a'' ls' =
           Inr (\<lparr>questionId = ''a'', easeFactor = 2.5, interval = 1, repetitions = 0,
                  nextReview = 3, lastResult = None\<rparr>, ls'))"
proof -
  let ?m = "[''a'' \<mapsto> \<lparr>questionId = ''a'', easeFactor = 2.2, interval = 1, repetitions = 0,
                  nextReview = 86400000, lastResult = Some Incorrect\<rparr>,
         ''b'' \<mapsto> \<lparr>questionId = ''b'', easeFactor = 2.6, interval = 1, repetitions = 1,
                  nextReview = 86400000, lastResult = Some Correct\<rparr>]"
  have h: "getRepetitionData (Item (Some (Stringified ?m))) = Inr ?m"
    by (simp add: getRepetitionData_eq)
  from clearRepetitionForChapter_removes [OF h, of "[''a'', ''x'']" 3]
  obtain ls' where c: "clearRepetitionForChapter [''a'', ''x''] (Item (Some (Stringified ?m))) = Inr ls'"
    and g: "getRepetitionData ls' = Inr (\<lambda>i. if i \<in> set [''a'', ''x''] then None else ?m i)"
    and q: "\<forall>i \<in> set [''a'', ''x'']. getQuestionData 3 i ls' =
            Inr (\<lparr>questionId = i, easeFactor = 2.5, interval = 1, repetitions = 0,
                   nextReview = 3, lastResult = None\<rparr>, ls')"
    by blast
  have i: "''a'' \<in> set [''a'', ''x'']"
    by simp
  from q i have "getQuestionData 3 ''a'' ls' =
            Inr (\<lparr>questionId = ''a'', easeFactor = 2.5, interval = 1, repetitions = 0,
                   nextReview = 3, lastResult = None\<rparr>, ls')"
    by (rule bspec)
  with h i c g show ?thesis
    by blast
qed

text \<open>Deleting a stored and an absent identifier leaves the other record alone.\<close>

lemma clearRepetitionForChapter_example:
  "clearRepetitionForChapter [''a'', ''x'']
     (Item (Some (Stringified
        [''a'' \<mapsto> \<lparr>questionId = ''a'', easeFactor = 2.2, interval = 1, repetitions = 0,
                  nextReview = 86400000, lastResult = Some Incorrect\<rparr>,
         ''b'' \<mapsto> \<lparr>questionId = ''b'', easeFactor = 2.6, interval = 1, repetitions = 1,
                  nextReview = 86400000, lastResult = Some Correct\<rparr>]))) =
   Inr (Item (Some (Stringified
        [''b'' \<mapsto> \<lparr>questionId = ''b'', easeFactor = 2.6, interval = 1, repetitions = 1,
                  nextReview = 86400000, lastResult = Some Correct\<rparr>])))"
  by (auto simp: clearRepetitionForChapter_def getRepetitionData_eq saveRepetitionData_def
      setItem_def JSON_stringify_def fun_eq_iff)

subsection \<open>The next review lies a day ahead\<close>

lemma getReviewCount_single:
  "getQuestionData t qid ls = Inr (r, ls0) \<Longrightarrow>
   getReviewCount t now [qid] ls =
     Inr (if lastResult r = None \<or> lastResult r = Some Incorrect \<or> nextReview r \<le> now
          then 1 else 0)"
  by (simp add: getReviewCount_def needs_review_def)

lemma getQuestionsForReview_single:
  "getQuestionData t (ident q) ls = Inr (r, ls0) \<Longrightarrow>
   getQuestionsForReview ident t now [q] ls =
     Inr (if lastResult r = None \<or> lastResult r = Some Incorrect \<or> nextReview r \<le> now
          then [q] else [])"
  by (simp add: getQuestionsForReview_def needs_review_def)

lemma Math_round_ge_1: "1 / 2 \<le> x \<Longrightarrow> 1 \<le> Math_round x"
proof -
  assume "1 / 2 \<le> x"
  then have "of_int 1 \<le> x + 1 / 2"
    by simp
  then have "1 \<le> \<lfloor>x + 1 / 2\<rfloor>"
    by (simp only: le_floor_iff)
  then show ?thesis
    by (simp add: Math_round_def)
qed

text \<open>
  Claim C10, as stated: for every record with interval at least 0 and ease factor at least
  1.3, the record returned has interval at least 1 and \<open>nextReview\<close> at least one day
  after \<open>now\<close>. A stored record with 2 repetitions and interval 0, answered correctly at
  time 1000, comes back with interval \<open>round (0 * 2.5) = 0\<close> and \<open>nextReview = 1000\<close>, and
  \<open>getReviewCount\<close> at that same time counts it as due.
\<close>

theorem updateRepetition_next_day_counterexample:
  "updateRepetition 0 1000 ''q'' True
     (Item (Some (Stringified [''q'' \<mapsto>
        \<lparr>questionId = ''q'', easeFactor = 2.5, interval = 0, repetitions = 2,
         nextReview = 0, lastResult = Some Correct\<rparr>]))) =
   Inr (\<lparr>questionId = ''q'', easeFactor = 2.6, interval = 0, repetitions = 3,
          nextReview = 1000, lastResult = Some Correct\<rparr>,
        Item (Some (Stringified [''q'' \<mapsto>
          \<lparr>questionId = ''q'', easeFactor = 2.6, interval = 0, repetitions = 3,
           nextReview = 1000, lastResult = Some Correct\<rparr>])))
   \<and> (0::real) \<le> 0 \<and> (1.3::real) \<le> 2.5
   \<and> \<not> (1::real) \<le> 0 \<and> \<not> (1000::real) + 86400000 \<le> 1000
   \<and> getReviewCount 1000 1000 [''q'']
        (Item (Some (Stringified [''q'' \<mapsto>
          \<lparr>questionId = ''q'', easeFactor = 2.6, interval = 0, repetitions = 3,
           nextReview = 1000, lastResult = Some Correct\<rparr>]))) = Inr 1"
  by (simp add: updateRepetition_def getQuestionData_def getRepetitionData_eq
      saveRepetitionData_def setItem_def JSON_stringify_def Math_round_def Let_def
      getReviewCount_def needs_review_def)

text \<open>
  Claim C10, amended: for every record with interval at least 1, ease factor at least 1.3
  and \<open>interval * easeFactor\<close> at most \<open>10 ^ 300\<close>, every answer outcome and every
  clock reading \<open>now\<close> that is a whole number of milliseconds from 0 to 8640000000000000
  (the range of \<open>Date.now()\<close>), the record returned by \<open>updateRepetition\<close> has interval
  at least 1 and \<open>nextReview\<close> at least \<open>now + 86400000\<close>; after a correct answer,
  \<open>getReviewCount\<close> and \<open>getQuestionsForReview\<close> at time \<open>now\<close> do not count or
  keep the question. The upper bounds keep every number of the call a finite double:
  beyond them the product \<open>interval * 24 * 60 * 60 * 1000\<close> of the source overflows, and the
  record is stored with \<open>nextReview: null\<close>.
\<close>

theorem updateRepetition_next_day:
  assumes "getQuestionData t0 qid ls = Inr (r, ls0)"
    and "1 \<le> interval r" and "1.3 \<le> easeFactor r"
    and "interval r * easeFactor r \<le> 10 ^ 300"
    and "now \<in> \<int>" and "0 \<le> now" and "now \<le> 8640000000000000"
  shows "\<exists>r' ls'. updateRepetition t0 now qid isCorrect ls = Inr (r', ls')
     \<and> 1 \<le> interval r' \<and> now + 86400000 \<le> nextReview r'
     \<and> (isCorrect \<longrightarrow>
          getReviewCount t now [qid] ls' = Inr 0
        \<and> (ident q = qid \<longrightarrow> getQuestionsForReview ident t now [q] ls' = Inr []))"
proof -
  from updateRepetition_fields [OF assms(1), of now isCorrect t]
  obtain r' ls' where u: "updateRepetition t0 now qid isCorrect ls = Inr (r', ls')"
    and g: "getQuestionData t qid ls' = Inr (r', ls')"
    and i: "interval r' =
         (if isCorrect then
            (if repetitions r = 0 then 1 else if repetitions r = 1 then 6
             else Math_round (interval r * easeFactor r))
          else 1)"
    and l: "lastResult r' = Some (if isCorrect then Correct else Incorrect)"
    and n: "nextReview r' = now + interval r' * 86400000"
    by blast
  have "1 * 1.3 \<le> interval r * easeFactor r"
    using assms(2,3) by (intro mult_mono) simp_all
  then have "1 \<le> Math_round (interval r * easeFactor r)"
    by (intro Math_round_ge_1) simp
  then have i1: "1 \<le> interval r'"
    by (simp add: i)
  then have n1: "now + 86400000 \<le> nextReview r'"
    by (simp add: n)
  have c: "isCorrect \<longrightarrow> getReviewCount t now [qid] ls' = Inr 0"
    using n1 l by (simp add: getReviewCount_single [OF g])
  have f: "isCorrect \<longrightarrow> ident q = qid \<longrightarrow> getQuestionsForReview ident t now [q] ls' = Inr []"
  proof (intro impI)
    assume ok: isCorrect and q: "ident q = qid"
    from g q have "getQuestionData t (ident q) ls' = Inr (r', ls')"
      by simp
    then have "getQuestionsForReview ident t now [q] ls' =
        Inr (if lastResult r' = None \<or> lastResult r' = Some Incorrect \<or> nextReview r' \<le> now
             then [q] else [])"
      by (rule getQuestionsForReview_single)
    with n1 l ok show "getQuestionsForReview ident t now [q] ls' = Inr []"
      by simp
  qed
  from u i1 n1 c f show ?thesis
    by blast
qed


theorem updateRepetition_next_day_witness:
  "getQuestionData 900 ''q''
     (Item (Some (Stringified [''q'' \<mapsto>
        \<lparr>questionId = ''q'', easeFactor = 2.6, interval = 6, repetitions = 2,
         nextReview = 500, lastResult = Some Correct\<rparr>]))) =
   Inr (\<lparr>questionId = ''q'', easeFactor = 2.6, interval = 6, repetitions = 2,
         nextReview = 500, lastResult = Some Correct\<rparr>,
     (Item (Some (Stringified [''q'' \<mapsto>
        \<lparr>questionId = ''q'', easeFactor = 2.6, interval = 6, repetitions = 2,
         nextReview = 500, lastResult = Some Correct\<rparr>]))))
   \<and> (1::real) \<le> 6 \<and> (1.3::real) \<le> 2.6 \<and> (6::real) * 2.6 \<le> 10 ^ 300
   \<and> (1000::real) \<in> \<int> \<and> (0::real) \<le> 1000 \<and> (1000::real) \<le> 8640000000000000
   \<and> fst (''q'', True) = ''q''
   \<and> (\<exists>r' ls'. updateRepetition 900 1000 ''q'' True
     (Item (Some (Stringified [''q'' \<mapsto>
        \<lparr>questionId = ''q'', easeFactor = 2.6, interval = 6, repetitions = 2,
         nextReview = 500, lastResult = Some Correct\<rparr>]))) = Inr (r', ls')
     \<and> 1 \<le> interval r' \<and> 1000 + 86400000 \<le> nextReview r'
     \<and> getReviewCount 1000 1000 [''q''] ls' = Inr 0
     \<and> getQuestionsForReview fst 1000 1000 [(''q'', True)] ls' = Inr [])"
proof -
  let ?b = "\<lparr>questionId = ''q'', easeFactor = 2.6, interval = 6, repetitions = 2,
         nextReview = 500, lastResult = Some Correct\<rparr>"
  let ?S = "Item (Some (Stringified [''q'' \<mapsto> ?b]))"
  have h: "getQuestionData 900 ''q'' ?S = Inr (?b, ?S)"
    by (simp add: getQuestionData_def getRepetitionData_eq)
  have "\<exists>r' ls'. updateRepetition 900 1000 ''q'' True ?S = Inr (r', ls')
     \<and> 1 \<le> interval r' \<and> 1000 + 86400000 \<le> nextReview r'
     \<and> (True \<longrightarrow>
          getReviewCount 1000 1000 [''q''] ls' = Inr 0
        \<and> (fst (''q'', True) = ''q'' \<longrightarrow>
             getQuestionsForReview fst 1000 1000 [(''q'', True)] ls' = Inr []))"
    by (rule updateRepetition_next_day [OF h]) simp_all
  with h show ?thesis
    by simp
qed

subsection \<open>Loading never fails\<close>

text \<open>
  Claim C9. Loading the mapping never throws: on every storage \<open>getRepetitionData\<close>
  returns a mapping, and it returns the empty mapping when the storage is unreadable, when
  it holds no item, and when it holds a text that does not parse (the empty string
  included).
\<close>

theorem getRepetitionData_never_fails:
  "(\<exists>m. getRepetitionData ls = Inr m)
   \<and> getRepetitionData Unreadable = Inr Map.empty
   \<and> getRepetitionData (Item None) = Inr Map.empty
   \<and> getRepetitionData (Item (Some Unparseable)) = Inr Map.empty
   \<and> getRepetitionData (Item (Some EmptyString)) = Inr Map.empty"
  by (simp add: getRepetitionData_eq)

end
